theory Spec2Isabelle
  imports Complex_Main "HOL-Library.AList" "HOL-Library.Multiset"
begin

section \<open>Strings: the standard-library functions the packages call\<close>

text \<open>
  Go strings are byte sequences; \<open>string\<close> is a list of \<open>char\<close> (bytes).
  \<open>strings.Compare\<close> orders strings bytewise and returns -1, 0 or 1.
\<close>

fun Compare :: "string \<Rightarrow> string \<Rightarrow> int" where
  "Compare [] [] = 0"
| "Compare [] (y # ys) = - 1"
| "Compare (x # xs) [] = 1"
| "Compare (x # xs) (y # ys) =
     (if (of_char x :: nat) < of_char y then - 1
      else if (of_char y :: nat) < of_char x then 1
      else Compare xs ys)"

text \<open>
  \<open>path.Split\<close> cuts a path after its last slash: the directory part keeps the
  slash, the file part has none; a path without a slash has an empty directory.
  \<open>splitAcc dir file rest\<close> reads \<open>rest\<close> from the left: \<open>dir\<close> is what lies
  before the last slash seen (the slash included), \<open>file\<close> what was read since.
\<close>

fun splitAcc :: "string \<Rightarrow> string \<Rightarrow> string \<Rightarrow> string \<times> string" where
  "splitAcc dir file [] = (dir, file)"
| "splitAcc dir file (c # cs) =
     (if c = CHR ''/'' then splitAcc (dir @ file @ [c]) [] cs
      else splitAcc dir (file @ [c]) cs)"

definition pathSplit :: "string \<Rightarrow> string \<times> string" where
  "pathSplit p = splitAcc [] [] p"

text \<open>\<open>strings.Trim(s, "/")\<close>: \<open>s\<close> without its leading and trailing slashes.\<close>

definition TrimSlash :: "string \<Rightarrow> string" where
  "TrimSlash s =
     rev (dropWhile (\<lambda>c. c = CHR ''/'') (rev (dropWhile (\<lambda>c. c = CHR ''/'') s)))"

text \<open>
  \<open>strings.Split(s, "+")\<close>: the pieces of \<open>s\<close> between plus signs; always at
  least one piece (the empty string gives one empty piece).
\<close>

fun splitPlusAcc :: "string \<Rightarrow> string \<Rightarrow> string list" where
  "splitPlusAcc piece [] = [piece]"
| "splitPlusAcc piece (c # cs) =
     (if c = CHR ''+'' then piece # splitPlusAcc [] cs
      else splitPlusAcc (piece @ [c]) cs)"

definition SplitPlus :: "string \<Rightarrow> string list" where
  "SplitPlus s = splitPlusAcc [] s"

text \<open>\<open>strings.Join(elems, sep)\<close>.\<close>

fun Join :: "string list \<Rightarrow> string \<Rightarrow> string" where
  "Join [] sep = []"
| "Join [x] sep = x"
| "Join (x # y # ys) sep = x @ sep @ Join (y # ys) sep"

section \<open>Package mime\<close>

text \<open>
  \<open>type Types map[string]map[string]float64\<close>. A Go map is modelled as an
  association list with lookup \<open>map_of\<close> and assignment \<open>AList.update\<close> (an
  existing key keeps its place, a new key goes last). Go leaves the order in which
  \<open>range\<close> visits a map unspecified; the order of the list stands for the order in
  which the runtime visits the map. The weights are only compared and copied, never
  computed with, so \<open>float64\<close> is modelled by the rationals (no NaN).
  \<open>type Type string\<close> is a string of the form group/subtype.
\<close>

type_synonym Types = "(string \<times> (string \<times> rat) list) list"

type_synonym Type = string

definition TextPlain :: Type where
  "TextPlain = ''text/plain''"

definition ApplicationJSON :: Type where
  "ApplicationJSON = ''application/json''"

definition ApplicationXML :: Type where
  "ApplicationXML = ''application/xml''"

definition ApplicationOctet :: Type where
  "ApplicationOctet = ''application/octet-stream''"

definition ApplicationFormURLEncoded :: Type where
  "ApplicationFormURLEncoded = ''application/x-www-form-urlencoded''"

definition wildcard :: string where
  "wildcard = ''*''"

text \<open>
  \<open>g[group][subType] = q\<close>, after \<open>if g[group] == nil { g[group] = make(...) }\<close>:
  the inner map of a missing group starts empty.
\<close>

definition ensureGroup :: "Types \<Rightarrow> string \<Rightarrow> Types" where
  "ensureGroup g grp =
     (if map_of g grp = None then AList.update grp [] g else g)"

definition setWeight :: "Types \<Rightarrow> string \<Rightarrow> string \<Rightarrow> rat \<Rightarrow> Types" where
  "setWeight g grp subType w =
     (case map_of g grp of
        None \<Rightarrow> g
      | Some subs \<Rightarrow> AList.update grp (AList.update subType w subs) g)"

text \<open>
  \<open>header.AcceptSpec\<close> of the gddo library: one media range of a parsed header
  with its quality. \<open>header.ParseAccept\<close> is not part of the repository; the
  functions that call it take its result, the list of parsed ranges.
\<close>

record AcceptSpec =
  Value :: string
  Q :: rat

text \<open>
  \<open>RequestTypes\<close>: every parsed range is split at its last slash, and a subtype
  with plus signs gives one entry per piece, all at the range's quality.
\<close>

definition addRange :: "Types \<Rightarrow> string \<Rightarrow> rat \<Rightarrow> Types" where
  "addRange g v w =
     (let (grp0, subgroup) = pathSplit v;
          grp = TrimSlash grp0;
          g1 = ensureGroup g grp
      in foldl (\<lambda>g' subType. setWeight g' grp subType w) g1 (SplitPlus subgroup))"

definition RequestTypes :: "AcceptSpec list \<Rightarrow> Types" where
  "RequestTypes specs = foldl (\<lambda>g v. addRange g (Value v) (Q v)) [] specs"

text \<open>
  \<open>NewTypes(s)\<close> puts \<open>s\<close> into the Accept header of a fresh request and calls
  \<open>RequestTypes\<close>; its argument here is \<open>header.ParseAccept\<close> of \<open>s\<close>.
\<close>

definition NewTypes :: "AcceptSpec list \<Rightarrow> Types" where
  "NewTypes parsed = RequestTypes parsed"

text \<open>\<open>Aggregate\<close>: the server's list of types, each at weight 1.\<close>

definition Aggregate :: "Type list \<Rightarrow> Types" where
  "Aggregate list = foldl (\<lambda>g s. addRange g s 1) [] list"

text \<open>\<open>Type.SubGroup\<close> and \<open>Type.Group\<close>.\<close>

definition SubGroup :: "Type \<Rightarrow> string" where
  "SubGroup t = snd (pathSplit t)"

definition Group :: "Type \<Rightarrow> string" where
  "Group t = TrimSlash (fst (pathSplit t))"

text \<open>\<open>type mimeSpec struct { typ, subTyp string; q float64 }\<close> (the field \<open>typ\<close> is
  written \<open>typ'\<close>).\<close>

record mimeSpec =
  typ' :: string
  subTyp :: string
  q :: rat

text \<open>The two nested \<open>range\<close> loops of \<open>Walk\<close> that collect the entries.\<close>

definition specsOf :: "Types \<Rightarrow> mimeSpec list" where
  "specsOf t =
     concat (map (\<lambda>(ty, subTyps).
       map (\<lambda>(st, w). \<lparr>typ' = ty, subTyp = st, q = w\<rparr>) subTyps) t)"

text \<open>The comparison function \<open>Walk\<close> hands to \<open>sort.Slice\<close>.\<close>

definition specLess :: "mimeSpec \<Rightarrow> mimeSpec \<Rightarrow> bool" where
  "specLess a b =
     (q a > q b \<or> Compare (typ' a) (typ' b) + Compare (subTyp a) (subTyp b) > 0)"

text \<open>
  \<open>sort.Slice\<close> belongs to Go's standard library. For a slice of at most twelve
  elements it runs insertion sort (every Go release does so up to six elements):
  \<^verbatim>\<open>for i := a + 1; i < b; i++ {
    for j := i; j > a && less(j, j-1); j-- { swap(j, j-1) } }\<close>
  \<open>sinkLeft lt x left\<close> is the inner loop: \<open>left\<close> holds the elements left of
  \<open>x\<close>, nearest first, and \<open>x\<close> moves left past each neighbour it is less than.
  Longer slices are sorted by another algorithm, which this model does not follow.
\<close>

fun sinkLeft :: "('a \<Rightarrow> 'a \<Rightarrow> bool) \<Rightarrow> 'a \<Rightarrow> 'a list \<Rightarrow> 'a list" where
  "sinkLeft lt x [] = [x]"
| "sinkLeft lt x (y # ys) =
     (if lt x y then y # sinkLeft lt x ys else x # y # ys)"

definition sortSlice :: "('a \<Rightarrow> 'a \<Rightarrow> bool) \<Rightarrow> 'a list \<Rightarrow> 'a list" where
  "sortSlice lt xs = rev (foldl (\<lambda>left x. sinkLeft lt x left) [] xs)"

text \<open>\<open>Type(fmt.Sprintf("%s/%s", typ.typ, typ.subTyp))\<close>\<close>

definition typeOf :: "mimeSpec \<Rightarrow> Type" where
  "typeOf m = typ' m @ ''/'' @ subTyp m"

text \<open>The types in the order in which \<open>Walk\<close> hands them to its callback.\<close>

definition walkOrder :: "Types \<Rightarrow> Type list" where
  "walkOrder t = map typeOf (sortSlice specLess (specsOf t))"

text \<open>
  Errors are values. Each constructor is one way the packages make an error: the
  package-level variables, \<open>errors.Wrap(err, msg)\<close> and \<open>fmt.Errorf\<close> with the
  formatted message.
\<close>

datatype error =
    ErrCouldntFindAccepts
  | ErrEncoderNotFound
  | ErrDecoderNotFound
  | Wrap error string
  | Errorf string

text \<open>
  \<open>Walk\<close> calls \<open>wf\<close> on each type in turn and stops at the first error. The
  callbacks are closures that assign to variables of their surroundings; the model
  threads those variables through as a state \<open>'s\<close>.
\<close>

fun walkLoop :: "(Type \<Rightarrow> 's \<Rightarrow> error option \<times> 's) \<Rightarrow> Type list \<Rightarrow> 's \<Rightarrow> error option \<times> 's" where
  "walkLoop walkFn [] s = (None, s)"
| "walkLoop walkFn (t # ts) s =
     (case walkFn t s of
        (Some err, s') \<Rightarrow> (Some err, s')
      | (None, s') \<Rightarrow> walkLoop walkFn ts s')"

definition Walk :: "Types \<Rightarrow> (Type \<Rightarrow> 's \<Rightarrow> error option \<times> 's) \<Rightarrow> 's \<Rightarrow> error option \<times> 's" where
  "Walk t walkFn s = walkLoop walkFn (walkOrder t) s"

text \<open>
  \<open>Intersect(a, b)\<close>. When \<open>b\<close> has the entry */* at weight \<open>w\<close>, the walk over
  \<open>a\<close> assigns \<open>w\<close> to \<open>b[m.Group()][m.SubGroup()]\<close> for every type \<open>m\<close> of \<open>a\<close>;
  \<open>b\<close> is the caller's map, so the model returns it next to the result.
\<close>

definition addEverything :: "rat \<Rightarrow> Type \<Rightarrow> Types \<Rightarrow> error option \<times> Types" where
  "addEverything w m b = (None, setWeight (ensureGroup b (Group m)) (Group m) (SubGroup m) w)"

definition expandWildcard :: "Types \<Rightarrow> Types \<Rightarrow> Types" where
  "expandWildcard a b =
     (case map_of b wildcard of
        None \<Rightarrow> b
      | Some x \<Rightarrow>
          (case map_of x wildcard of
             None \<Rightarrow> b
           | Some w \<Rightarrow> snd (Walk a (addEverything w) b)))"

text \<open>
  The second loop of \<open>Intersect\<close>. \<open>if q, ok := b[group][subgroup]; ok || wildcarded\<close>
  stores \<open>q\<close>, which is the zero value when the lookup failed.
\<close>

definition intersectSub :: "(string \<times> rat) list \<Rightarrow> bool \<Rightarrow> string \<Rightarrow> Types \<Rightarrow> string \<Rightarrow> Types" where
  "intersectSub bg wildcarded grp g subgroup =
     (case map_of bg subgroup of
        Some w \<Rightarrow> setWeight (ensureGroup g grp) grp subgroup w
      | None \<Rightarrow>
          if wildcarded then setWeight (ensureGroup g grp) grp subgroup 0 else g)"

definition intersectGroup :: "Types \<Rightarrow> Types \<Rightarrow> string \<times> (string \<times> rat) list \<Rightarrow> Types" where
  "intersectGroup b g entry =
     (case map_of b (fst entry) of
        None \<Rightarrow> g
      | Some bg \<Rightarrow>
          foldl (intersectSub bg (map_of bg wildcard \<noteq> None) (fst entry)) g
            (map fst (snd entry)))"

definition Intersect :: "Types \<Rightarrow> Types \<Rightarrow> Types \<times> Types" where
  "Intersect a b =
     (let b' = expandWildcard a b
      in (foldl (intersectGroup b') [] a, b'))"

section \<open>Request context\<close>

text \<open>
  A \<open>context.Context\<close> holds values under keys, and every reader asserts the type it
  expects: a key that is unset or holds a value of another type reads as absent. The
  record has one field for each key the functions below read or write.
  Under \<open>kitjwt.JWTClaimsContextKey\<close> two kinds of value matter: a pointer to a
  \<open>stdjwt.Token\<close> (given by the token's \<open>Claims\<close> field) and a value that implements
  \<open>stdjwt.Claims\<close>; \<open>stdjwt.MapClaims\<close> is one implementation of that interface.
\<close>

datatype 'c Claims = MapClaims 'c | OtherClaims 'c

datatype 'c claimsValue = TokenPointer "'c Claims" | ClaimsValue "'c Claims"

record ('c, 'u) Context =
  JWTClaimsContextKey :: "'c claimsValue option"
  UserContextKey :: "'u option"
  ScopesContextKey :: "string list option"
  ContextKeyAccepts :: "Types option"

text \<open>
  \<open>endpoint.Endpoint\<close>: a function from context and request to a response or an
  error; \<open>endpoint.Middleware\<close> maps an endpoint to an endpoint.
\<close>

type_synonym ('c, 'u, 'req, 'resp) Endpoint = "('c, 'u) Context \<Rightarrow> 'req \<Rightarrow> error + 'resp"

text \<open>Package http: \<open>ContextAccepts\<close>.\<close>

definition ContextAccepts :: "('c, 'u) Context \<Rightarrow> error + Types" where
  "ContextAccepts ctx =
     (case ContextKeyAccepts ctx of
        Some accepts \<Rightarrow> Inr accepts
      | None \<Rightarrow> Inl ErrCouldntFindAccepts)"

text \<open>
  \<open>context.Background()\<close> holds nothing. \<open>PopulateRequestContext\<close> stores, among
  the request's other data, \<open>mime.RequestTypes(r)\<close> under \<open>ContextKeyAccepts\<close>; its
  second argument is \<open>header.ParseAccept\<close> of the request's Accept header.
\<close>

definition Background :: "('c, 'u) Context" where
  "Background =
     \<lparr>JWTClaimsContextKey = None, UserContextKey = None,
      ScopesContextKey = None, ContextKeyAccepts = None\<rparr>"

definition PopulateRequestContext :: "('c, 'u) Context \<Rightarrow> AcceptSpec list \<Rightarrow> ('c, 'u) Context" where
  "PopulateRequestContext ctx accept = ctx\<lparr>ContextKeyAccepts := Some (RequestTypes accept)\<rparr>"

section \<open>Package encoders\<close>

text \<open>
  \<open>NewEncoderFunc\<close>: the constructors the package defines, and any other one a caller
  registers. The table \<open>encoders\<close> is a package-level map from type to constructor; a
  registered constructor may be the nil function, written \<open>None\<close>. The functions take
  the table as an argument.
\<close>

datatype NewEncoderFunc =
  JSONEncoder | XMLEncoder | TextEncoder | FormEncoder | ByteEncoder | OtherEncoder string

type_synonym encoderTable = "Type \<rightharpoonup> NewEncoderFunc option"

definition encoders :: encoderTable where
  "encoders =
     [ApplicationJSON \<mapsto> Some JSONEncoder,
      ApplicationXML \<mapsto> Some XMLEncoder,
      TextPlain \<mapsto> Some TextEncoder,
      ApplicationFormURLEncoded \<mapsto> Some FormEncoder,
      ApplicationOctet \<mapsto> Some ByteEncoder]"

definition Register :: "Type \<Rightarrow> NewEncoderFunc option \<Rightarrow> encoderTable \<Rightarrow> encoderTable" where
  "Register s n tbl = tbl(s \<mapsto> n)"

text \<open>\<open>tbl[k]\<close> read without the ok flag: the nil function when the key is missing.\<close>

definition lookupOrNil :: "encoderTable \<Rightarrow> Type \<Rightarrow> NewEncoderFunc option" where
  "lookupOrNil tbl k = (case tbl k of None \<Rightarrow> None | Some n \<Rightarrow> n)"

text \<open>
  The callback of \<open>ResponseEncoder\<close>; its state is the pair of the named results
  \<open>newEnc\<close> and \<open>mimeType\<close>.
\<close>

definition pickEncoder ::
  "encoderTable \<Rightarrow> Type \<Rightarrow> NewEncoderFunc option \<times> Type
     \<Rightarrow> error option \<times> NewEncoderFunc option \<times> Type" where
  "pickEncoder tbl s st =
     (if fst st \<noteq> None then (None, st)
      else case tbl s of
             Some nef \<Rightarrow> (None, (nef, s))
           | None \<Rightarrow> (Some (Errorf (s @ '' isn't a registered encoder'')), st))"

text \<open>
  The graph \<open>ResponseEncoder\<close> walks: the intersection of the server's and the
  client's graphs, or the server's graph when the intersection has no group.
\<close>

definition candidates :: "Type list \<Rightarrow> Types \<Rightarrow> Types" where
  "candidates accepts clientGraph =
     (let serverGraph = Aggregate accepts;
          available = fst (Intersect serverGraph clientGraph)
      in if length available < 1 then serverGraph else available)"

text \<open>
  \<open>ResponseEncoder\<close> returns the triple (newEnc, mimeType, err). \<open>Intersect\<close> may
  add entries to the client graph held in the context; no result of
  \<open>ResponseEncoder\<close> depends on them, and the model drops them here.
\<close>

definition ResponseEncoder ::
  "encoderTable \<Rightarrow> ('c, 'u) Context \<Rightarrow> Type list
     \<Rightarrow> NewEncoderFunc option \<times> Type \<times> error option" where
  "ResponseEncoder tbl ctx accepts =
     (case ContextAccepts ctx of
        Inl err \<Rightarrow> (None, [], Some (Wrap err ''response encoder''))
      | Inr clientGraph \<Rightarrow>
          (case Walk (candidates accepts clientGraph) (pickEncoder tbl) (None, []) of
             (err, newEnc, mimeType) \<Rightarrow>
               if err \<noteq> None then (None, [], err)
               else if newEnc = None \<or> mimeType = []
                 then (lookupOrNil tbl ApplicationOctet, ApplicationOctet, None)
               else (newEnc, mimeType, None)))"

section \<open>Package decoders\<close>

text \<open>
  The constructors of the package and any other registered one. The decoder a
  constructor builds on the response body is identified with the constructor;
  \<open>None\<close> is the nil decoder.
\<close>

datatype newDecoder = JSONDecoder | XMLDecoder | FormDecoder | OtherDecoder string





section \<open>Package auth\<close>

text \<open>
  The extractors return a value or an error. Both middlewares hand the request to
  the next endpoint on every path; only a successful extraction changes the context.
\<close>

definition ScopesToContext ::
  "('c \<Rightarrow> error + string list) \<Rightarrow> ('c, 'u, 'req, 'resp) Endpoint \<Rightarrow> ('c, 'u, 'req, 'resp) Endpoint" where
  "ScopesToContext claimsScopes next ctx request =
     (case JWTClaimsContextKey ctx of
        Some (TokenPointer (MapClaims mapClaims)) \<Rightarrow>
          (case claimsScopes mapClaims of
             Inr scopes \<Rightarrow> next (ctx\<lparr>ScopesContextKey := Some scopes\<rparr>) request
           | Inl err \<Rightarrow> next ctx request)
      | _ \<Rightarrow> next ctx request)"

definition UserToContext ::
  "('c Claims \<Rightarrow> error + 'u) \<Rightarrow> ('c, 'u, 'req, 'resp) Endpoint \<Rightarrow> ('c, 'u, 'req, 'resp) Endpoint" where
  "UserToContext claimsUser next ctx request =
     (case JWTClaimsContextKey ctx of
        Some (ClaimsValue claims) \<Rightarrow>
          (case claimsUser claims of
             Inr user \<Rightarrow> next (ctx\<lparr>UserContextKey := Some user\<rparr>) request
           | Inl err \<Rightarrow> next ctx request)
      | _ \<Rightarrow> next ctx request)"

text \<open>
  \<open>RequireScopes(scopes)\<close> first builds the map \<open>x\<close> with every required scope set
  to false, and returns a middleware that closes over \<open>x\<close>.
\<close>

definition RequireScopes :: "string list \<Rightarrow> (string \<times> bool) list" where
  "RequireScopes scopes = foldl (\<lambda>x scope. AList.update scope False x) [] scopes"

text \<open>
  One call of the endpoint the middleware builds. \<open>checkList := x\<close> copies the
  reference, so the assignments to \<open>checkList\<close> are assignments to \<open>x\<close>: the call
  returns the map next to its result, and the next call starts from it.
  The \<open>range\<close> loop appends every key of the map to \<open>missingScopes\<close>.
\<close>

definition requireScopesCall ::
  "(string \<times> bool) list \<Rightarrow> ('c, 'u, 'req, 'resp) Endpoint \<Rightarrow> ('c, 'u) Context \<Rightarrow> 'req
     \<Rightarrow> (error + 'resp) \<times> (string \<times> bool) list" where
  "requireScopesCall x next ctx request =
     (let scopes = (case ScopesContextKey ctx of Some granted \<Rightarrow> granted | None \<Rightarrow> []);
          checkList = foldl (\<lambda>cl scope. AList.update scope True cl) x scopes;
          (hasAccess, missingScopes) =
             foldl (\<lambda>(h, ms) (scope, checked). (h \<and> checked, ms @ [scope])) (True, []) checkList
      in if \<not> hasAccess
         then (Inl (Errorf (''request is missing these scopes: '' @ Join missingScopes '', '')),
               checkList)
         else (next ctx request, checkList))"

section \<open>Package options\<close>

text \<open>
  The middlewares \<open>OpMiddlewares\<close> composes are kept as values: one constructor for
  each function that builds a stage, one for a middleware registered by the caller,
  and \<open>Chain\<close> for go-kit's \<open>endpoint.Chain(outer, others...)\<close>, which applies
  \<open>outer\<close> to the result of applying \<open>others\<close>, the first of them outermost.
  The tracer, the reporter and the functions given by the \<open>With...\<close> options are
  opaque values.
\<close>

datatype Tracer = NoopTracer | OtherTracer string

datatype Reporter = NoopReporter | OtherReporter string

datatype ErrorEncoder = DefaultErrorEncoder | OtherErrorEncoder string

datatype ('f, 'x) Middleware =
    mwTraceClient Tracer string
  | mwErrorReporter Reporter string
  | mwJWTToContext 'f 'f 'f
  | mwUserToContext 'f
  | mwScopesToContext 'f
  | mwRegistered 'x
  | Chain "('f, 'x) Middleware" "('f, 'x) Middleware list"

text \<open>
  The stages of a composed middleware in the order in which a request passes
  through them on its way to the handler.
\<close>

fun inbound :: "('f, 'x) Middleware \<Rightarrow> ('f, 'x) Middleware list" where
  "inbound (Chain outer others) = inbound outer @ concat (map inbound others)"
| "inbound m = [m]"

text \<open>
  The endpoint a middleware builds around \<open>next\<close>, given what each stage does:
  \<open>Chain(outer, others...)(next)\<close> is \<open>outer(others[0](others[1](... next)))\<close>.
\<close>

fun applyMiddleware ::
  "(('f, 'x) Middleware \<Rightarrow> 'e \<Rightarrow> 'e) \<Rightarrow> ('f, 'x) Middleware \<Rightarrow> 'e \<Rightarrow> 'e" where
  "applyMiddleware stage (Chain outer others) next =
     applyMiddleware stage outer (foldr (applyMiddleware stage) others next)"
| "applyMiddleware stage m next = stage m next"

text \<open>\<open>stack.Stack\<close> of golang-collections: the head of the list is the top.\<close>

definition Push :: "'a \<Rightarrow> 'a list \<Rightarrow> 'a list" where
  "Push v st = v # st"

definition Pop :: "'a list \<Rightarrow> 'a option \<times> 'a list" where
  "Pop st = (case st of [] \<Rightarrow> (None, []) | v # rest \<Rightarrow> (Some v, rest))"

definition Len :: "'a list \<Rightarrow> nat" where
  "Len st = length st"

text \<open>
  \<open>type Options struct\<close>. The table \<open>middlewares\<close> maps an operation to a pointer
  to its stack; the model maps it to the stack, and a function that pushes or pops
  through the pointer returns the table with the stack it left.
\<close>

record ('f, 'x) Options =
  tracer :: Tracer
  errorReporter :: Reporter
  errorEncoder :: "ErrorEncoder option"
  kf :: "'f option"
  sm :: "'f option"
  cf :: "'f option"
  jwtFunc :: "'f option"
  userFunc :: "'f option"
  scopesFunc :: "'f option"
  middlewares :: "string \<rightharpoonup> ('f, 'x) Middleware list"

definition New :: "('f, 'x) Options" where
  "New =
     \<lparr>tracer = NoopTracer, errorReporter = NoopReporter,
      errorEncoder = Some DefaultErrorEncoder,
      kf = None, sm = None, cf = None, jwtFunc = None,
      userFunc = None, scopesFunc = None, middlewares = Map.empty\<rparr>"

text \<open>
  The loop \<open>for i := operationStack.Len(); i > 0; i--\<close> of \<open>OpMiddlewares\<close>. The type
  assertion on what \<open>Pop\<close> returns panics on an empty stack: the result \<open>None\<close>.
\<close>

fun chainLoop ::
  "nat \<Rightarrow> ('f, 'x) Middleware \<Rightarrow> ('f, 'x) Middleware list
     \<Rightarrow> ('f, 'x) Middleware option \<times> ('f, 'x) Middleware list" where
  "chainLoop 0 mware st = (Some mware, st)"
| "chainLoop (Suc i) mware st =
     (case Pop st of
        (Some v, st') \<Rightarrow> chainLoop i (Chain mware [v]) st'
      | (None, st') \<Rightarrow> (None, st'))"

text \<open>The stages \<open>OpMiddlewares\<close> pushes, in the order of its statements.\<close>

definition pushStages ::
  "('f, 'x) Options \<Rightarrow> string \<Rightarrow> ('f, 'x) Middleware list \<Rightarrow> ('f, 'x) Middleware list" where
  "pushStages m operation operationStack =
     (let s1 = (case scopesFunc m of
                  Some f \<Rightarrow> Push (mwScopesToContext f) operationStack
                | None \<Rightarrow> operationStack);
          s2 = (case userFunc m of
                  Some f \<Rightarrow> Push (mwUserToContext f) s1
                | None \<Rightarrow> s1);
          s3 = (case (kf m, sm m, cf m) of
                  (Some k, Some s, Some c) \<Rightarrow> Push (mwJWTToContext k s c) s2
                | _ \<Rightarrow> s2);
          s4 = Push (mwTraceClient (tracer m) operation) s3
      in Push (mwErrorReporter (errorReporter m) operation) s4)"

text \<open>
  \<open>OpMiddlewares\<close> returns the composed middleware (\<open>None\<close> for a panic) and the
  options as it leaves them: when the operation has a registered stack, the pushes
  and pops go through the table's pointer.
\<close>

definition OpMiddlewares ::
  "('f, 'x) Options \<Rightarrow> string \<Rightarrow> ('f, 'x) Middleware option \<times> ('f, 'x) Options" where
  "OpMiddlewares m operation =
     (let operationStack = (case middlewares m operation of Some st \<Rightarrow> st | None \<Rightarrow> []);
          pushed = pushStages m operation operationStack;
          (mware, final) =
             (case Pop pushed of
                (Some topmost, rest) \<Rightarrow> chainLoop (Len rest) topmost rest
              | (None, rest) \<Rightarrow> (None, rest))
      in (mware,
          case middlewares m operation of
            Some st \<Rightarrow> m\<lparr>middlewares := (middlewares m)(operation \<mapsto> final)\<rparr>
          | None \<Rightarrow> m))"

text \<open>
  The stages that depend on the options, in the order of the doc comment of
  \<open>OpMiddlewares\<close>: the JWT parser (when key function, signing method and claims
  factory are all set), the user parser, the scopes parser. Used to state what
  \<open>OpMiddlewares\<close> builds.
\<close>

definition optionalStages :: "('f, 'x) Options \<Rightarrow> ('f, 'x) Middleware list" where
  "optionalStages m =
     (case (kf m, sm m, cf m) of
        (Some k, Some s, Some c) \<Rightarrow> [mwJWTToContext k s c]
      | _ \<Rightarrow> [])
     @ (case userFunc m of Some f \<Rightarrow> [mwUserToContext f] | None \<Rightarrow> [])
     @ (case scopesFunc m of Some f \<Rightarrow> [mwScopesToContext f] | None \<Rightarrow> [])"

definition RegisterMiddleware ::
  "('f, 'x) Options \<Rightarrow> string \<Rightarrow> ('f, 'x) Middleware list \<Rightarrow> ('f, 'x) Options" where
  "RegisterMiddleware m op mws =
     (let st0 = (case middlewares m op of Some st \<Rightarrow> st | None \<Rightarrow> [])
      in m\<lparr>middlewares := (middlewares m)(op \<mapsto> foldl (\<lambda>st mw. Push mw st) st0 mws)\<rparr>)"

section \<open>Lemmas\<close>




lemma sortSlice_Nil: "sortSlice lt [] = []"
  by (simp add: sortSlice_def)

lemma walkOrder_no_entries: "specsOf t = [] \<Longrightarrow> walkOrder t = []"
  by (simp add: walkOrder_def sortSlice_Nil)





lemmas mime_defs =
  Aggregate_def RequestTypes_def NewTypes_def addRange_def pathSplit_def TrimSlash_def
  SplitPlus_def ensureGroup_def setWeight_def Intersect_def expandWildcard_def wildcard_def
  intersectGroup_def intersectSub_def addEverything_def Walk_def walkOrder_def specsOf_def
  sortSlice_def specLess_def typeOf_def Group_def SubGroup_def

lemmas type_defs =
  ApplicationJSON_def ApplicationXML_def TextPlain_def ApplicationFormURLEncoded_def
  ApplicationOctet_def

lemmas encoder_defs =
  candidates_def encoders_def ResponseEncoder_def ContextAccepts_def
  PopulateRequestContext_def Background_def pickEncoder_def lookupOrNil_def

lemmas options_defs =
  OpMiddlewares_def RegisterMiddleware_def New_def pushStages_def Push_def Pop_def Len_def

section \<open>Content negotiation\<close>

subsection \<open>C1: which candidate ResponseEncoder returns\<close>


text \<open>
  The walk of these two candidates does not depend on the order in which \<open>range\<close>
  visits the graph: both orders put text/yaml first.
\<close>

lemma walkOrder_yaml_before_json:
  "walkOrder [(''application'', [(''json'', 1)]), (''text'', [(''yaml'', 1)])] =
     [''text/yaml'', ''application/json'']
   \<and> walkOrder [(''text'', [(''yaml'', 1)]), (''application'', [(''json'', 1)])] =
     [''text/yaml'', ''application/json'']"
  by (simp add: mime_defs)



text \<open>
  Two more negotiations: a client that accepts */* gets the server's only type, and
  the range application/vnd.api+json matches the server type application/json
  through the piece after the plus sign.
\<close>

lemma ResponseEncoder_wildcard_and_suffix:
  "ResponseEncoder encoders
     (PopulateRequestContext (Background :: (unit, unit) Context) [\<lparr>Value = ''*/*'', Q = 1\<rparr>])
     [''application/xml''] =
   (Some XMLEncoder, ''application/xml'', None)
   \<and> ResponseEncoder encoders
     (PopulateRequestContext (Background :: (unit, unit) Context)
        [\<lparr>Value = ''application/vnd.api+json'', Q = 1\<rparr>])
     [''application/json''] =
   (Some JSONEncoder, ''application/json'', None)"
  by (simp add: mime_defs encoder_defs type_defs)

subsection \<open>C5: no candidate at all\<close>

text \<open>
  C5 names binary/octet-stream as the type \<open>ResponseEncoder\<close> falls back to when
  there is no candidate. The type it returns is \<open>mime.ApplicationOctet\<close>, which is
  application/octet-stream: here for an empty list of server types.
\<close>

theorem ResponseEncoder_fallback_type_counterexample:
  "ResponseEncoder encoders
     (PopulateRequestContext (Background :: (unit, unit) Context) [\<lparr>Value = ''text/html'', Q = 1\<rparr>])
     [] =
   (Some ByteEncoder, ''application/octet-stream'', None)
   \<and> ''application/octet-stream'' \<noteq> ''binary/octet-stream''"
  by (simp add: mime_defs encoder_defs type_defs)

text \<open>
  C5, amended: when the candidate graph that \<open>ResponseEncoder\<close> walks has no entry,
  the call returns the type application/octet-stream with the encoder the table
  holds for it, and no error.
\<close>

theorem ResponseEncoder_empty_candidates:
  assumes "ContextKeyAccepts ctx = Some clientGraph"
      and "specsOf (candidates accepts clientGraph) = []"
  shows "ResponseEncoder tbl ctx accepts =
           (lookupOrNil tbl ''application/octet-stream'', ''application/octet-stream'', None)"
  using assms
  by (simp add: ResponseEncoder_def ContextAccepts_def Walk_def walkOrder_no_entries
      ApplicationOctet_def)

text \<open>
  The theorem at an empty list of server types and the package's own table, which
  holds the byte encoder for application/octet-stream.
\<close>

theorem ResponseEncoder_empty_candidates_witness:
  "specsOf (candidates [] (RequestTypes [\<lparr>Value = ''text/html'', Q = 1\<rparr>])) = []
   \<and> ResponseEncoder encoders
        (PopulateRequestContext (Background :: (unit, unit) Context) [\<lparr>Value = ''text/html'', Q = 1\<rparr>])
        [] =
      (Some ByteEncoder, ''application/octet-stream'', None)"
proof -
  let ?accept = "[\<lparr>Value = ''text/html'', Q = 1\<rparr>]"
  let ?ctx = "PopulateRequestContext (Background :: (unit, unit) Context) ?accept"
  have held: "ContextKeyAccepts ?ctx = Some (RequestTypes ?accept)"
    by (simp add: PopulateRequestContext_def)
  have none: "specsOf (candidates [] (RequestTypes ?accept)) = []"
    by (simp add: mime_defs candidates_def)
  have byte: "lookupOrNil encoders ''application/octet-stream'' = Some ByteEncoder"
    by (simp add: lookupOrNil_def encoders_def type_defs)
  from ResponseEncoder_empty_candidates[OF held none, of encoders] byte none
  show ?thesis by simp
qed

subsection \<open>C9: the decoder of a response\<close>


text \<open>Here too both orders of visiting the graph give the same walk.\<close>

lemma walkOrder_vnd_before_json:
  "walkOrder [(''application'', [(''vnd.api'', 1), (''json'', 1)])] =
     [''application/vnd.api'', ''application/json'']
   \<and> walkOrder [(''application'', [(''json'', 1), (''vnd.api'', 1)])] =
     [''application/vnd.api'', ''application/json'']"
  by (simp add: mime_defs)



subsection \<open>C3: the weights Intersect gives\<close>

text \<open>
  C3 says that a pair of the server graph matched by a client entry gets the weight
  of that entry, an exact entry before a wildcard of the group. For the server type
  text/plain and the client range text/* at quality 0.8, text/plain is in the result
  through the wildcard, and its weight is 0: the zero value of the failed exact
  lookup, not the 0.8 of the wildcard.
\<close>

theorem Intersect_wildcard_match_has_weight_zero:
  "Intersect (Aggregate [''text/plain'']) (NewTypes [\<lparr>Value = ''text/*'', Q = 4 / 5\<rparr>]) =
     ([(''text'', [(''plain'', 0)])], [(''text'', [(''*'', 4 / 5)])])"
  by (simp add: mime_defs)

subsection \<open>C4: the order of Walk\<close>

text \<open>
  Whatever the comparison function, the insertion sort only moves elements: \<open>Walk\<close>
  hands every entry of the graph to its callback exactly once (unless the callback
  stops it with an error).
\<close>

lemma mset_sinkLeft: "mset (sinkLeft lt x ys) = add_mset x (mset ys)"
  by (induction ys) simp_all

lemma mset_foldl_sinkLeft:
  "mset (foldl (\<lambda>left x. sinkLeft lt x left) acc xs) = mset acc + mset xs"
  by (induction xs arbitrary: acc) (simp_all add: mset_sinkLeft)

lemma mset_sortSlice: "mset (sortSlice lt xs) = mset xs"
  by (simp add: sortSlice_def mset_foldl_sinkLeft)

lemma walkOrder_visits_each_entry_once:
  "mset (walkOrder t) = mset (map typeOf (specsOf t))"
  unfolding walkOrder_def
  by (metis mset_map mset_sortSlice)

text \<open>
  The order of the walk depends on the order in which \<open>range\<close> visits the map: the
  graph of the theorem below, visited with text first, is walked by descending
  weight.
\<close>

lemma walkOrder_other_visit_order:
  "walkOrder [(''text'', [(''plain'', 1 / 2)]), (''application'', [(''json'', 1)])] =
     [''application/json'', ''text/plain'']"
  by (simp add: mime_defs)

text \<open>
  C4 says that \<open>Walk\<close> visits the entries by descending weight. For the graph of
  \<open>application/json, text/plain;q=0.5\<close>, visited by \<open>range\<close> in this order, the
  comparison function puts text/plain (weight 0.5) before application/json
  (weight 1): it holds whenever both strings of the one entry are greater than
  those of the other, whatever the weights.
\<close>

theorem Walk_visits_lower_weight_first:
  "Walk (NewTypes [\<lparr>Value = ''application/json'', Q = 1\<rparr>, \<lparr>Value = ''text/plain'', Q = 1 / 2\<rparr>])
     (\<lambda>m seen. (None, seen @ [m])) [] =
   (None, [''text/plain'', ''application/json''])"
  by (simp add: mime_defs)

section \<open>Authentication\<close>

subsection \<open>C7: the extractors fail open\<close>

text \<open>
  C7: when the user extractor, or the scopes extractor, returns an error for the
  claims of the context, the middleware calls the next endpoint with the context it
  was given, so the user or scopes entry is as it was (unset, if it was unset), and
  the result of the request is the result of the next endpoint. On every path both
  middlewares hand the request on: none of them returns an error of its own.
\<close>

theorem extractors_fail_open:
  "(JWTClaimsContextKey ctx = Some (ClaimsValue claims) \<and> claimsUser claims = Inl e
      \<longrightarrow> UserToContext claimsUser next ctx request = next ctx request)
   \<and> (JWTClaimsContextKey ctx = Some (TokenPointer (MapClaims mapClaims))
        \<and> claimsScopes mapClaims = Inl e
      \<longrightarrow> ScopesToContext claimsScopes next ctx request = next ctx request)
   \<and> (\<exists>ctx'. UserToContext claimsUser next ctx request = next ctx' request)
   \<and> (\<exists>ctx'. ScopesToContext claimsScopes next ctx request = next ctx' request)"
proof (intro conjI impI)
  show "\<exists>ctx'. UserToContext claimsUser next ctx request = next ctx' request"
    unfolding UserToContext_def
    by (auto split: option.splits claimsValue.splits sum.splits)
next
  show "\<exists>ctx'. ScopesToContext claimsScopes next ctx request = next ctx' request"
    unfolding ScopesToContext_def
    by (auto split: option.splits claimsValue.splits Claims.splits sum.splits)
qed (simp_all add: UserToContext_def ScopesToContext_def)

text \<open>
  The theorem at a context that holds claims and no user or scopes, with extractors
  that always fail and a next endpoint that answers with the two entries it sees:
  both are unset.
\<close>

theorem extractors_fail_open_witness:
  "UserToContext (\<lambda>claims. Inl (Errorf ''no user in claims''))
     (\<lambda>ctx request. Inr (UserContextKey ctx, ScopesContextKey ctx))
     ((Background :: (nat, string) Context)\<lparr>JWTClaimsContextKey := Some (ClaimsValue (MapClaims 7))\<rparr>)
     () = Inr (None, None)
   \<and> ScopesToContext (\<lambda>mapClaims. Inl (Errorf ''no scopes in claims''))
     (\<lambda>ctx request. Inr (UserContextKey ctx, ScopesContextKey ctx))
     ((Background :: (nat, string) Context)\<lparr>JWTClaimsContextKey := Some (TokenPointer (MapClaims 7))\<rparr>)
     () = Inr (None, None)"
proof -
  let ?next = "\<lambda>(ctx :: (nat, string) Context) (request :: unit).
                 (Inr (UserContextKey ctx, ScopesContextKey ctx)
                    :: error + (string option \<times> string list option))"
  let ?c1 = "(Background :: (nat, string) Context)\<lparr>JWTClaimsContextKey := Some (ClaimsValue (MapClaims 7))\<rparr>"
  let ?c2 = "(Background :: (nat, string) Context)\<lparr>JWTClaimsContextKey := Some (TokenPointer (MapClaims 7))\<rparr>"
  from extractors_fail_open[of ?c1 "MapClaims 7" "\<lambda>claims. Inl (Errorf ''no user in claims'')"
      "Errorf ''no user in claims''" ?next "()" 7 "\<lambda>mapClaims. Inl (Errorf ''no scopes in claims'')"]
  have user: "UserToContext (\<lambda>claims. Inl (Errorf ''no user in claims'')) ?next ?c1 () = ?next ?c1 ()"
    by simp
  from extractors_fail_open[of ?c2 "MapClaims 7" "\<lambda>claims. Inl (Errorf ''no scopes in claims'')"
      "Errorf ''no scopes in claims''" ?next "()" 7 "\<lambda>mapClaims. Inl (Errorf ''no scopes in claims'')"]
  have scopes: "ScopesToContext (\<lambda>mapClaims. Inl (Errorf ''no scopes in claims'')) ?next ?c2 () = ?next ?c2 ()"
    by simp
  from user scopes show ?thesis by (simp add: Background_def)
qed

subsection \<open>C6: what the scope guard reports\<close>

text \<open>
  The first call of a new guard accepts exactly when every required scope is among
  the granted ones (none, when the context holds no scopes); when it rejects, the
  scopes its error lists are the keys of the check list, which are the required and
  the granted scopes together.
\<close>

lemma map_of_foldl_update:
  "map_of (foldl (\<lambda>x k. AList.update k v x) al ks) k' =
     (if k' \<in> set ks then Some v else map_of al k')"
  by (induction ks arbitrary: al) (simp_all add: update_conv')

lemma distinct_foldl_update:
  "distinct (map fst al) \<Longrightarrow> distinct (map fst (foldl (\<lambda>x k. AList.update k v x) al ks))"
  by (induction ks arbitrary: al) (simp_all add: distinct_update)

lemma checkList_loop:
  "foldl (\<lambda>(h, ms) (scope, checked). (h \<and> checked, ms @ [scope])) (h0, ms0) cl =
     ((h0 \<and> list_all snd cl), ms0 @ map fst cl)"
  by (induction cl arbitrary: h0 ms0) (auto simp: case_prod_beta)

lemma list_all_snd_map_of:
  assumes "distinct (map fst al)"
  shows "list_all snd al \<longleftrightarrow> (\<forall>k. map_of al k \<noteq> Some False)"
proof -
  have "list_all snd al \<longleftrightarrow> (\<forall>k. (k, False) \<notin> set al)"
  proof
    assume "list_all snd al"
    then show "\<forall>k. (k, False) \<notin> set al" by (auto simp: list_all_iff)
  next
    assume none: "\<forall>k. (k, False) \<notin> set al"
    have "snd p" if mem: "p \<in> set al" for p
    proof (rule ccontr)
      assume "\<not> snd p"
      then have "p = (fst p, False)" by (simp add: prod_eq_iff)
      with mem none show False by metis
    qed
    then show "list_all snd al" by (simp add: list_all_iff)
  qed
  also have "\<dots> \<longleftrightarrow> (\<forall>k. map_of al k \<noteq> Some False)"
    using assms by (simp add: map_of_eq_Some_iff)
  finally show ?thesis .
qed

lemma RequireScopes_first_call:
  "fst (requireScopesCall (RequireScopes required) next ctx request) =
     (let granted = (case ScopesContextKey ctx of Some gs \<Rightarrow> gs | None \<Rightarrow> []);
          checkList = foldl (\<lambda>cl scope. AList.update scope True cl) (RequireScopes required) granted
      in if set required \<subseteq> set granted then next ctx request
         else Inl (Errorf (''request is missing these scopes: '' @ Join (map fst checkList) '', '')))"
proof -
  define granted where "granted = (case ScopesContextKey ctx of Some gs \<Rightarrow> gs | None \<Rightarrow> [])"
  define checkList where
    "checkList = foldl (\<lambda>cl scope. AList.update scope True cl) (RequireScopes required) granted"
  have d: "distinct (map fst checkList)"
    unfolding checkList_def RequireScopes_def
    by (intro distinct_foldl_update) simp
  have m: "map_of checkList k =
             (if k \<in> set granted then Some True
              else if k \<in> set required then Some False else None)" for k
    unfolding checkList_def RequireScopes_def by (simp add: map_of_foldl_update)
  have "list_all snd checkList \<longleftrightarrow> set required \<subseteq> set granted"
    unfolding list_all_snd_map_of[OF d] by (auto simp: m)
  then show ?thesis
    unfolding requireScopesCall_def Let_def
    by (simp add: checkList_loop granted_def[symmetric] checkList_def[symmetric])
qed

lemma RequireScopes_listed_keys:
  "set (map fst (foldl (\<lambda>cl scope. AList.update scope True cl) (RequireScopes required) granted)) =
     set required \<union> set granted"
proof -
  have "set (map fst al) = dom (map_of al)" for al :: "(string \<times> bool) list"
    by (simp add: dom_map_of_conv_image_fst)
  then show ?thesis
    by (auto simp: RequireScopes_def map_of_foldl_update dom_def split: if_splits)
qed

text \<open>
  C6 says that the guard rejects with the set of missing scopes. For the required
  scopes read and write and the granted scope read, the first call of a new guard
  rejects, and its error lists read as well: the loop appends every key of the
  check list, granted or not, in the order of the map.
\<close>

theorem RequireScopes_reports_granted_scope_as_missing:
  "fst (requireScopesCall (RequireScopes [''read'', ''write'']) (\<lambda>ctx request. Inr ())
          ((Background :: (unit, unit) Context)\<lparr>ScopesContextKey := Some [''read'']\<rparr>) ()) =
     Inl (Errorf ''request is missing these scopes: read, write'')"
  by (simp add: requireScopesCall_def RequireScopes_def Background_def)

subsection \<open>C10: calls of one guard\<close>

text \<open>
  C10 says that the outcome of a call of the guard depends only on the required
  scopes and on the scopes granted in the context of that call. The guard for the
  scope admin rejects a request without scopes when it is the first call, and
  accepts the same request after a call whose context granted admin: the marks of
  the earlier call are still in the map the guard closes over.
\<close>

theorem RequireScopes_accepts_after_earlier_grant:
  "(let x0 = RequireScopes [''admin''];
        anonymous = (Background :: (unit, unit) Context);
        admin = anonymous\<lparr>ScopesContextKey := Some [''admin'']\<rparr>;
        handler = (\<lambda>ctx request. Inr ''served'');
        (r1, x1) = requireScopesCall x0 handler admin ();
        (r2, x2) = requireScopesCall x1 handler anonymous ()
    in (fst (requireScopesCall x0 handler anonymous ()), r1, r2)) =
   (Inl (Errorf ''request is missing these scopes: admin''), Inr ''served'', Inr ''served'')"
  by (simp add: requireScopesCall_def RequireScopes_def Background_def)

section \<open>The pipeline of an operation\<close>

subsection \<open>What OpMiddlewares builds\<close>

text \<open>
  The list \<open>inbound\<close> is the order of execution: the endpoint a composed middleware
  builds applies the stages of \<open>inbound\<close>, the first of them outermost.
\<close>

lemma foldr_apply_concat:
  "(\<And>m nxt. m \<in> set ms \<Longrightarrow> f m nxt = foldr stage (g m) nxt) \<Longrightarrow>
     foldr f ms nxt = foldr stage (concat (map g ms)) nxt"
  by (induction ms arbitrary: nxt) simp_all

lemma applyMiddleware_inbound:
  "applyMiddleware stage mw nxt = foldr stage (inbound mw) nxt"
proof (induction mw arbitrary: nxt)
  case (Chain outer others)
  have "foldr (applyMiddleware stage) others nxt =
          foldr stage (concat (map inbound others)) nxt"
    by (rule foldr_apply_concat) (simp add: Chain.IH(2))
  then show ?case by (simp add: Chain.IH(1))
qed simp_all

text \<open>
  The loop of \<open>OpMiddlewares\<close> pops the whole stack and never panics. For every
  options value and operation the composed middleware runs error reporting, then
  tracing, then the configured parsers, then what the operation's stack held, top
  first; a registered stack is left empty in the table. \<open>RegisterMiddleware\<close> puts
  the middleware registered last on top.
\<close>

lemma chainLoop_pops_all:
  "chainLoop (length st) mw st = (Some (foldl (\<lambda>m v. Chain m [v]) mw st), [])"
  by (induction st arbitrary: mw) (simp_all add: Pop_def)

lemma inbound_foldl_Chain:
  "inbound (foldl (\<lambda>m v. Chain m [v]) mw st) = inbound mw @ concat (map inbound st)"
  by (induction st arbitrary: mw) simp_all

lemma pushStages_eq:
  "pushStages m operation st =
     mwErrorReporter (errorReporter m) operation # mwTraceClient (tracer m) operation #
       optionalStages m @ st"
  by (simp add: pushStages_def optionalStages_def Push_def Let_def
      split: option.splits prod.splits)

lemma inbound_optionalStages:
  "concat (map inbound (optionalStages m)) = optionalStages m"
  by (simp add: optionalStages_def split: option.splits prod.splits)

lemma OpMiddlewares_inbound:
  "map_option inbound (fst (OpMiddlewares m operation)) =
     Some (mwErrorReporter (errorReporter m) operation # mwTraceClient (tracer m) operation #
           optionalStages m @
           concat (map inbound (case middlewares m operation of Some st \<Rightarrow> st | None \<Rightarrow> [])))"
  by (simp add: OpMiddlewares_def pushStages_eq Pop_def Len_def chainLoop_pops_all
      inbound_foldl_Chain inbound_optionalStages Let_def)

lemma OpMiddlewares_table:
  "middlewares (snd (OpMiddlewares m operation)) =
     (case middlewares m operation of
        Some st \<Rightarrow> (middlewares m)(operation \<mapsto> [])
      | None \<Rightarrow> middlewares m)"
  by (simp add: OpMiddlewares_def pushStages_eq Pop_def Len_def chainLoop_pops_all Let_def
      split: option.splits)

lemma foldl_Push: "foldl (\<lambda>st mw. Push mw st) st mws = rev mws @ st"
  by (induction mws arbitrary: st) (simp_all add: Push_def)

lemma RegisterMiddleware_table:
  "middlewares (RegisterMiddleware m op mws) op =
     Some (rev mws @ (case middlewares m op of Some st \<Rightarrow> st | None \<Rightarrow> []))"
  by (simp add: RegisterMiddleware_def foldl_Push Let_def)

subsection \<open>C2: the order of the stages\<close>

text \<open>
  C2 says that a request passes tracing, then error reporting, then the registered
  middlewares in the order of their registration. With the default options and
  M1, M2 registered in this order for an operation, the composed middleware runs
  error reporting first, then tracing, then M2, then M1.
\<close>

theorem OpMiddlewares_reporting_before_tracing_extras_reversed:
  "map_option inbound (fst (OpMiddlewares
      (RegisterMiddleware (New :: (unit, string) Options) ''op''
         [mwRegistered ''M1'', mwRegistered ''M2''])
      ''op'')) =
   Some [mwErrorReporter NoopReporter ''op'', mwTraceClient NoopTracer ''op'',
         mwRegistered ''M2'', mwRegistered ''M1'']"
  by (simp add: options_defs)

subsection \<open>C8: building the pipeline twice\<close>

text \<open>
  C8 says that building the pipeline of an operation leaves the table of registered
  middlewares as it was, so that a second build gives the same stages. With M1, M2
  registered, the first build pops them off the operation's stack, the table then
  holds the empty stack, and the second build has the two fixed stages only.
\<close>

theorem OpMiddlewares_second_build_has_no_extras:
  "(let m0 = RegisterMiddleware (New :: (unit, string) Options) ''op''
               [mwRegistered ''M1'', mwRegistered ''M2''];
        (first, m1) = OpMiddlewares m0 ''op'';
        (second, m2) = OpMiddlewares m1 ''op''
    in (middlewares m0 ''op'', map_option inbound first,
        middlewares m1 ''op'', map_option inbound second)) =
   (Some [mwRegistered ''M2'', mwRegistered ''M1''],
    Some [mwErrorReporter NoopReporter ''op'', mwTraceClient NoopTracer ''op'',
          mwRegistered ''M2'', mwRegistered ''M1''],
    Some [],
    Some [mwErrorReporter NoopReporter ''op'', mwTraceClient NoopTracer ''op''])"
  by (simp add: options_defs)

end
